theory Spec2Isabelle
  imports Complex_Main "HOL-Library.AList"
begin

section \<open>Domain types (src/models/types.ts)\<close>

text \<open>
  Instants (\<^verbatim>\<open>Date\<close>, \<^verbatim>\<open>Date.now()\<close>) are milliseconds since the epoch, an
  \<^typ>\<open>int\<close>. Quantities and prices are JavaScript numbers on their integer range, an
  \<^typ>\<open>int\<close> as well. The field \<^verbatim>\<open>id\<close> of a cart is called \<open>cartId\<close> and the
  field \<^verbatim>\<open>total\<close> of the totals \<open>total_amount\<close>, since \<open>id\<close> and \<open>total\<close> are
  constants of HOL.

  The totals are sums of products with a looked-up price, which can be \<^verbatim>\<open>NaN\<close>: a
  \<open>number\<close> is the double of an integer, or \<^verbatim>\<open>NaN\<close>. \<^verbatim>\<open>NaN\<close> absorbs in
  \<^verbatim>\<open>+\<close> and \<^verbatim>\<open>*\<close>. On integers the model adds and multiplies exactly, as the
  doubles do while the results stay within \<^verbatim>\<open>Number.MAX_SAFE_INTEGER\<close>.
\<close>

datatype number = Num int | NaN

fun num_add :: "number \<Rightarrow> number \<Rightarrow> number" where
  "num_add (Num a) (Num b) = Num (a + b)"
| "num_add _ _ = NaN"

fun num_mul :: "number \<Rightarrow> number \<Rightarrow> number" where
  "num_mul (Num a) (Num b) = Num (a * b)"
| "num_mul _ _ = NaN"


record CartItem =
  itemId :: string
  sku :: string
  quantity :: int

record CartTotals =
  subtotal :: number
  tax :: number
  total_amount :: number

record CustomerInfo =
  email :: "string option"
  firstName :: "string option"
  lastName :: "string option"

record Cart =
  cartId :: string
  items :: "CartItem list"
  totals :: CartTotals
  customer :: "CustomerInfo option"
  createdAt :: int
  updatedAt :: int
  expiresAt :: int

section \<open>Errors (src/lib/errors.ts)\<close>

text \<open>
  The three subclasses of \<^verbatim>\<open>CartError\<close> with their message, and \<open>TypeError\<close> for the
  runtime's own exception on a property read of \<^verbatim>\<open>null\<close>. \<open>OutsideTypes\<close> is no
  exception of the code: it marks the point where a value does not inhabit its declared
  TypeScript type and the model, which has carts at their declared type, stops.
\<close>

datatype error =
    NotFoundError string
  | ValidationError string
  | TokenError string
  | TypeError
  | OutsideTypes

section \<open>Pricing (src/config/pricing.ts)\<close>

definition DEFAULT_PRICE :: int where
  "DEFAULT_PRICE = 1000"

definition MOCK_PRICES :: "(string \<times> int) list" where
  "MOCK_PRICES =
     [(''PLAN-5G-PLUS'', 2500), (''PLAN-BASIC'', 1500), (''ADDON-ROAM'', 500), (''ADDON-DATA'', 300)]"

text \<open>
  \<^verbatim>\<open>MOCK_PRICES\<close> is a plain object: \<^verbatim>\<open>MOCK_PRICES[sku]\<close> answers its own member
  of that name, else the member it inherits from \<^verbatim>\<open>Object.prototype\<close>, else
  \<^verbatim>\<open>undefined\<close>, and \<^verbatim>\<open>??\<close> replaces \<^verbatim>\<open>undefined\<close> only. An inherited member
  is a function or an object. The price is only ever multiplied, and the product of such
  a member with any number is \<^verbatim>\<open>NaN\<close>, so \<open>getPrice\<close> answers \<open>NaN\<close> for it.
\<close>

definition Object_prototype_names :: "string list" where
  "Object_prototype_names =
     [''constructor'', ''__defineGetter__'', ''__defineSetter__'', ''hasOwnProperty'',
      ''__lookupGetter__'', ''__lookupSetter__'', ''isPrototypeOf'', ''propertyIsEnumerable'',
      ''toString'', ''valueOf'', ''__proto__'', ''toLocaleString'']"

definition getPrice :: "string \<Rightarrow> number" where
  "getPrice s =
     (case map_of MOCK_PRICES s of
        Some p \<Rightarrow> Num p
      | None \<Rightarrow> if s \<in> set Object_prototype_names then NaN else Num DEFAULT_PRICE)"

text \<open>
  \<^verbatim>\<open>TAX_RATE\<close> is read from the environment when the module is loaded, so it is a
  parameter: the rational value of that double. The product \<^verbatim>\<open>subtotal * TAX_RATE\<close>
  is a double product, the exact product times \<open>1 + \<delta>\<close> for a relative rounding error
  \<open>\<delta>\<close> that depends on the operands; \<open>product_error\<close> gives it for each subtotal and
  is a parameter too.
\<close>

record pricing =
  TAX_RATE :: rat
  product_error :: "int \<Rightarrow> rat"

section \<open>Cart model (src/models/cart.ts)\<close>

text \<open>
  \<^verbatim>\<open>Math.round\<close> rounds to the nearest integer, a half upwards, which is
  \<^const>\<open>round\<close>; of \<^verbatim>\<open>NaN\<close> it is \<^verbatim>\<open>NaN\<close>.
\<close>

definition calculateTotals :: "pricing \<Rightarrow> CartItem list \<Rightarrow> CartTotals" where
  "calculateTotals P its =
     (let subtotal = foldl (\<lambda>sum item. num_add sum (num_mul (getPrice (sku item)) (Num (quantity item))))
                       (Num 0) its;
          tax = (case subtotal of
                   Num n \<Rightarrow> Num (round (of_int n * TAX_RATE P * (1 + product_error P n)))
                 | NaN \<Rightarrow> NaN);
          total = num_add subtotal tax
      in \<lparr>subtotal = subtotal, tax = tax, total_amount = total\<rparr>)"

text \<open>\<open>now\<close> is the instant \<^verbatim>\<open>new Date()\<close> reads.\<close>

definition createCart :: "string \<Rightarrow> int \<Rightarrow> int \<Rightarrow> Cart" where
  "createCart i ttlMs now =
     \<lparr>cartId = i, items = [],
      totals = \<lparr>subtotal = Num 0, tax = Num 0, total_amount = Num 0\<rparr>,
      customer = None,
      createdAt = now, updatedAt = now, expiresAt = now + ttlMs\<rparr>"

text \<open>\<^verbatim>\<open>Array.prototype.findIndex\<close>: the first index whose element satisfies the
  predicate, \<open>-1\<close> when there is none.\<close>

fun findIndex :: "('a \<Rightarrow> bool) \<Rightarrow> 'a list \<Rightarrow> int" where
  "findIndex P [] = -1"
| "findIndex P (x # xs) =
     (if P x then 0 else (let i = findIndex P xs in if i < 0 then -1 else i + 1))"

text \<open>
  \<open>newId\<close> is the value \<^verbatim>\<open>crypto.randomUUID()\<close> returns when the else branch calls it.
\<close>

definition mergeItem :: "pricing \<Rightarrow> Cart \<Rightarrow> string \<Rightarrow> int \<Rightarrow> int \<Rightarrow> string \<Rightarrow> Cart" where
  "mergeItem P cart s q now newId =
     (let existingIndex = findIndex (\<lambda>item. sku item = s) (items cart);
          updatedItems =
            (if existingIndex \<ge> 0
             then (items cart)[nat existingIndex :=
                     (items cart ! nat existingIndex)
                       \<lparr>quantity := quantity (items cart ! nat existingIndex) + q\<rparr>]
             else items cart @ [\<lparr>itemId = newId, sku = s, quantity = q\<rparr>])
      in cart\<lparr>items := updatedItems,
              totals := calculateTotals P updatedItems,
              updatedAt := now\<rparr>)"

definition removeItem :: "pricing \<Rightarrow> Cart \<Rightarrow> string \<Rightarrow> int \<Rightarrow> Cart" where
  "removeItem P cart iid now =
     (let updatedItems = filter (\<lambda>item. itemId item \<noteq> iid) (items cart)
      in cart\<lparr>items := updatedItems,
              totals := calculateTotals P updatedItems,
              updatedAt := now\<rparr>)"

section \<open>The cart store (src/clients/salesforceCartClient.ts)\<close>

text \<open>
  The client object: its four configuration fields and the \<^verbatim>\<open>Map\<close> of carts. A
  JavaScript \<^verbatim>\<open>Map\<close> iterates in insertion order, \<^verbatim>\<open>set\<close> on a present key keeps
  the key's place and on a new key appends, which is \<^const>\<open>AList.update\<close> on an
  association list; \<^verbatim>\<open>delete\<close> is \<^const>\<open>AList.delete\<close> and \<^verbatim>\<open>get\<close> is
  \<^const>\<open>map_of\<close>. The methods \<^verbatim>\<open>create\<close>, \<^verbatim>\<open>get\<close>, \<^verbatim>\<open>update\<close>,
  \<^verbatim>\<open>delete\<close> and \<^verbatim>\<open>size\<close> are \<open>store_create\<close> to \<open>store_size\<close>; each returns
  the client with its new map. An operation reads the clock as one instant \<open>now\<close>: its
  body runs without suspending.
\<close>

record SalesforceCartClient =
  ttlMs :: int
  sweepIntervalMs :: int
  sweepScanLimit :: int
  sweepBudgetMs :: int
  carts :: "(string \<times> Cart) list"

definition isExpired :: "Cart \<Rightarrow> int \<Rightarrow> bool" where
  "isExpired cart now = (now > expiresAt cart)"

definition refreshTtl :: "SalesforceCartClient \<Rightarrow> Cart \<Rightarrow> int \<Rightarrow> Cart" where
  "refreshTtl C cart now = cart\<lparr>updatedAt := now, expiresAt := now + ttlMs C\<rparr>"

definition store_create :: "SalesforceCartClient \<Rightarrow> Cart \<Rightarrow> Cart \<times> SalesforceCartClient" where
  "store_create C cart = (cart, C\<lparr>carts := AList.update (cartId cart) cart (carts C)\<rparr>)"

definition store_get :: "SalesforceCartClient \<Rightarrow> int \<Rightarrow> string \<Rightarrow> Cart option \<times> SalesforceCartClient" where
  "store_get C now i =
     (case map_of (carts C) i of
        None \<Rightarrow> (None, C)
      | Some cart \<Rightarrow>
          if isExpired cart now
          then (None, C\<lparr>carts := AList.delete i (carts C)\<rparr>)
          else (let refreshed = refreshTtl C cart now
                in (Some refreshed, C\<lparr>carts := AList.update i refreshed (carts C)\<rparr>)))"

definition store_update :: "SalesforceCartClient \<Rightarrow> int \<Rightarrow> Cart \<Rightarrow> (error + Cart) \<times> SalesforceCartClient" where
  "store_update C now cart =
     (case map_of (carts C) (cartId cart) of
        None \<Rightarrow> (Inl (NotFoundError ''Cart not found''), C)
      | Some existing \<Rightarrow>
          if isExpired existing now
          then (Inl (NotFoundError ''Cart expired''), C\<lparr>carts := AList.delete (cartId cart) (carts C)\<rparr>)
          else (let refreshed = refreshTtl C cart now
                in (Inr refreshed, C\<lparr>carts := AList.update (cartId cart) refreshed (carts C)\<rparr>)))"

definition store_delete :: "SalesforceCartClient \<Rightarrow> string \<Rightarrow> SalesforceCartClient" where
  "store_delete C i = C\<lparr>carts := AList.delete i (carts C)\<rparr>"

definition store_size :: "SalesforceCartClient \<Rightarrow> nat" where
  "store_size C = length (carts C)"

text \<open>
  \<^verbatim>\<open>sweep\<close> reads the clock several times, and the budget test is about the time
  that passes between the reads: \<open>startTime\<close> is the first read, \<open>expiryClock k\<close> the
  read of \<^verbatim>\<open>isExpired\<close> and \<open>budgetClock k\<close> the read of the budget test in the
  iteration that has \<open>k\<close> entries behind it. The loop runs over the entries the map had
  at the start: an iteration deletes its own entry only, which a \<^verbatim>\<open>Map\<close> iterator
  allows. The local counter \<^verbatim>\<open>scanned\<close> is returned beside the client.
\<close>

fun sweep_loop ::
  "SalesforceCartClient \<Rightarrow> int \<Rightarrow> (nat \<Rightarrow> int) \<Rightarrow> (nat \<Rightarrow> int) \<Rightarrow> (string \<times> Cart) list \<Rightarrow> nat
     \<Rightarrow> SalesforceCartClient \<times> nat" where
  "sweep_loop C startTime expiryClock budgetClock [] scanned = (C, scanned)"
| "sweep_loop C startTime expiryClock budgetClock ((i, cart) # rest) scanned =
     (let C1 = (if isExpired cart (expiryClock scanned)
                then C\<lparr>carts := AList.delete i (carts C)\<rparr> else C);
          scanned1 = scanned + 1
      in if int scanned1 \<ge> sweepScanLimit C1 then (C1, scanned1)
         else if budgetClock scanned - startTime \<ge> sweepBudgetMs C1 then (C1, scanned1)
         else sweep_loop C1 startTime expiryClock budgetClock rest scanned1)"

definition sweep ::
  "SalesforceCartClient \<Rightarrow> int \<Rightarrow> (nat \<Rightarrow> int) \<Rightarrow> (nat \<Rightarrow> int) \<Rightarrow> SalesforceCartClient \<times> nat" where
  "sweep C startTime expiryClock budgetClock =
     sweep_loop C startTime expiryClock budgetClock (carts C) 0"

section \<open>Rehydration tokens (src/lib/rehydration.ts)\<close>

text \<open>
  A token payload is whatever \<^verbatim>\<open>JSON.parse\<close> returns, so payloads are JSON values.
  An object is the list of its members; numbers are integers, as above.
\<close>

datatype json =
    JNull
  | JBool bool
  | JNum int
  | JStr string
  | JArr "json list"
  | JObj "(string \<times> json) list"

text \<open>
  Reading the property \<open>k\<close> of a value that is not \<^verbatim>\<open>null\<close>: a member of an
  object, \<^verbatim>\<open>undefined\<close> (\<open>None\<close>) otherwise. The keys read below (\<^verbatim>\<open>iat\<close>,
  \<^verbatim>\<open>items\<close>, \<^verbatim>\<open>sku\<close>, \<^verbatim>\<open>quantity\<close>) are no built-in properties of arrays,
  strings, numbers or booleans.
\<close>

fun getProp :: "json \<Rightarrow> string \<Rightarrow> json option" where
  "getProp (JObj members) k = map_of members k"
| "getProp _ k = None"

text \<open>
  What the module takes from the Node runtime, as parameters: \<^verbatim>\<open>JSON.stringify\<close>,
  \<^verbatim>\<open>JSON.parse\<close> (\<open>None\<close> when it throws), the base64url encoding of a string's
  bytes and its decoding back to a string, and
  \<^verbatim>\<open>createHmac('sha256', secret).update(data).digest('base64url')\<close>.
\<close>

record node_lib =
  jsonStringify :: "json \<Rightarrow> string"
  jsonParse :: "string \<Rightarrow> json option"
  base64url :: "string \<Rightarrow> string"
  fromBase64url :: "string \<Rightarrow> string"
  hmacSha256 :: "string \<Rightarrow> string \<Rightarrow> string"

text \<open>\<^verbatim>\<open>token.split('.')\<close>\<close>

fun split_dot :: "string \<Rightarrow> string list" where
  "split_dot [] = [[]]"
| "split_dot (c # cs) =
     (if c = CHR ''.'' then [] # split_dot cs
      else (case split_dot cs of [] \<Rightarrow> [[c]] | part # parts \<Rightarrow> (c # part) # parts))"

definition generateToken :: "node_lib \<Rightarrow> json \<Rightarrow> string \<Rightarrow> string" where
  "generateToken L payload secret =
     (let dataStr = jsonStringify L payload;
          encoded = base64url L dataStr;
          signature = hmacSha256 L secret encoded
      in encoded @ ''.'' @ signature)"

text \<open>
  The two buffers hold the characters of the two signatures, so the length test and
  \<^verbatim>\<open>timingSafeEqual\<close> together are equality of the strings. A \<^verbatim>\<open>null\<close> payload
  makes the read of \<^verbatim>\<open>payload.iat\<close> throw a \<^verbatim>\<open>TypeError\<close>, outside the
  \<^verbatim>\<open>try\<close> block.
\<close>

definition verifyToken :: "node_lib \<Rightarrow> int \<Rightarrow> string \<Rightarrow> string \<Rightarrow> int \<Rightarrow> error + json" where
  "verifyToken L now token secret maxAgeMs =
     (case split_dot token of
        [encoded, signature] \<Rightarrow>
          (let expectedSignature = hmacSha256 L secret encoded
           in if length signature \<noteq> length expectedSignature \<or> signature \<noteq> expectedSignature
              then Inl (TokenError ''Token signature invalid'')
              else (case jsonParse L (fromBase64url L encoded) of
                      None \<Rightarrow> Inl (TokenError ''Token payload invalid'')
                    | Some payload \<Rightarrow>
                        if payload = JNull then Inl TypeError
                        else (case (getProp payload ''iat'', getProp payload ''items'') of
                                (Some (JNum iat), Some (JArr _)) \<Rightarrow>
                                  (let age = now - iat
                                   in if age > maxAgeMs \<or> age < 0
                                      then Inl (TokenError ''Token expired or invalid timestamp'')
                                      else Inr payload)
                              | _ \<Rightarrow> Inl (TokenError ''Token payload malformed''))))
      | _ \<Rightarrow> Inl (TokenError ''Invalid token format''))"

text \<open>The object literal \<^verbatim>\<open>{ iat: ..., items }\<close> of \<^verbatim>\<open>createRehydrationToken\<close>.\<close>

definition createRehydrationToken :: "node_lib \<Rightarrow> int \<Rightarrow> json list \<Rightarrow> string \<Rightarrow> string" where
  "createRehydrationToken L now its secret =
     (let payload = JObj [(''iat'', JNum now), (''items'', JArr its)]
      in generateToken L payload secret)"

section \<open>The cart service (src/services/cart.service.ts)\<close>

record CartService =
  client :: SalesforceCartClient
  service_ttlMs :: int
  rehydrationSecret :: string
  rehydrationMaxAgeMs :: int

record CartResponse =
  cart :: Cart
  rehydrationToken :: string

text \<open>A cart line as \<^verbatim>\<open>JSON.stringify\<close> sees it, and the literal
  \<^verbatim>\<open>{ sku: item.sku, quantity: item.quantity }\<close>.\<close>

definition CartItem_json :: "CartItem \<Rightarrow> json" where
  "CartItem_json item =
     JObj [(''itemId'', JStr (itemId item)), (''sku'', JStr (sku item)), (''quantity'', JNum (quantity item))]"

definition sku_quantity :: "string \<Rightarrow> int \<Rightarrow> json" where
  "sku_quantity s q = JObj [(''sku'', JStr s), (''quantity'', JNum q)]"

text \<open>
  Each operation returns its result, or the error it throws, beside the service with its
  client's new map. \<open>uuid\<close> is the value \<^verbatim>\<open>crypto.randomUUID()\<close> returns.
\<close>

definition service_createCart :: "node_lib \<Rightarrow> CartService \<Rightarrow> int \<Rightarrow> string \<Rightarrow> CartResponse \<times> CartService" where
  "service_createCart L S now uuid =
     (let c = createCart uuid (service_ttlMs S) now;
          (_, C1) = store_create (client S) c;
          token = createRehydrationToken L now (map CartItem_json (items c)) (rehydrationSecret S)
      in (\<lparr>cart = c, rehydrationToken = token\<rparr>, S\<lparr>client := C1\<rparr>))"

definition service_getCart :: "CartService \<Rightarrow> int \<Rightarrow> string \<Rightarrow> (error + Cart) \<times> CartService" where
  "service_getCart S now i =
     (case store_get (client S) now i of
        (None, C1) \<Rightarrow> (Inl (NotFoundError ''Cart not found or expired''), S\<lparr>client := C1\<rparr>)
      | (Some c, C1) \<Rightarrow> (Inr c, S\<lparr>client := C1\<rparr>))"

definition service_addItem ::
  "node_lib \<Rightarrow> pricing \<Rightarrow> CartService \<Rightarrow> int \<Rightarrow> string \<Rightarrow> string \<Rightarrow> string \<Rightarrow> int
     \<Rightarrow> (error + CartResponse) \<times> CartService" where
  "service_addItem L P S now uuid i s q =
     (case service_getCart S now i of
        (Inl e, S1) \<Rightarrow> (Inl e, S1)
      | (Inr c, S1) \<Rightarrow>
          (let updated = mergeItem P c s q now uuid
           in case store_update (client S1) now updated of
                (Inl e, C2) \<Rightarrow> (Inl e, S1\<lparr>client := C2\<rparr>)
              | (Inr _, C2) \<Rightarrow>
                  (let token = createRehydrationToken L now
                                 (map (\<lambda>item. sku_quantity (sku item) (quantity item)) (items updated))
                                 (rehydrationSecret S1)
                   in (Inr \<lparr>cart = updated, rehydrationToken = token\<rparr>, S1\<lparr>client := C2\<rparr>))))"

definition service_removeItem ::
  "pricing \<Rightarrow> CartService \<Rightarrow> int \<Rightarrow> string \<Rightarrow> string \<Rightarrow> (error + Cart) \<times> CartService" where
  "service_removeItem P S now i iid =
     (case service_getCart S now i of
        (Inl e, S1) \<Rightarrow> (Inl e, S1)
      | (Inr c, S1) \<Rightarrow>
          (let updated = removeItem P c iid now
           in case store_update (client S1) now updated of
                (Inl e, C2) \<Rightarrow> (Inl e, S1\<lparr>client := C2\<rparr>)
              | (Inr _, C2) \<Rightarrow> (Inr updated, S1\<lparr>client := C2\<rparr>)))"

text \<open>
  \<^verbatim>\<open>rehydrateCart\<close> reads \<^verbatim>\<open>item.sku\<close> and \<^verbatim>\<open>item.quantity\<close> of every
  element of \<^verbatim>\<open>payload.items\<close> at the type \<^verbatim>\<open>RehydrationTokenPayload\<close>.
  \<open>payload_items\<close> is that reading, and \<open>None\<close> when an element is no object with a
  string \<^verbatim>\<open>sku\<close> and a number \<^verbatim>\<open>quantity\<close>: the model follows the code on
  typed payloads only and stops with \<open>OutsideTypes\<close> on the others.
\<close>

fun item_of_json :: "json \<Rightarrow> (string \<times> int) option" where
  "item_of_json (JObj members) =
     (case (map_of members ''sku'', map_of members ''quantity'') of
        (Some (JStr s), Some (JNum q)) \<Rightarrow> Some (s, q)
      | _ \<Rightarrow> None)"
| "item_of_json _ = None"

definition payload_items :: "json \<Rightarrow> (string \<times> int) list option" where
  "payload_items payload =
     (case getProp payload ''items'' of
        Some (JArr xs) \<Rightarrow> those (map item_of_json xs)
      | _ \<Rightarrow> None)"

text \<open>
  The replay loop. \<open>rnd k\<close> is the value \<^verbatim>\<open>crypto.randomUUID()\<close> returns in the
  iteration that has \<open>k\<close> items behind it, if \<^verbatim>\<open>mergeItem\<close> calls it there.
\<close>

fun replayItems :: "pricing \<Rightarrow> Cart \<Rightarrow> (string \<times> int) list \<Rightarrow> int \<Rightarrow> (nat \<Rightarrow> string) \<Rightarrow> nat \<Rightarrow> Cart" where
  "replayItems P c [] now rnd k = c"
| "replayItems P c ((s, q) # rest) now rnd k =
     replayItems P (mergeItem P c s q now (rnd k)) rest now rnd (Suc k)"

definition service_rehydrateCart ::
  "node_lib \<Rightarrow> pricing \<Rightarrow> CartService \<Rightarrow> int \<Rightarrow> string \<Rightarrow> (nat \<Rightarrow> string) \<Rightarrow> string
     \<Rightarrow> (error + CartResponse) \<times> CartService" where
  "service_rehydrateCart L P S now uuid rnd token =
     (case verifyToken L now token (rehydrationSecret S) (rehydrationMaxAgeMs S) of
        Inl e \<Rightarrow> (Inl e, S)
      | Inr payload \<Rightarrow>
          (case payload_items payload of
             None \<Rightarrow> (Inl OutsideTypes, S)
           | Some its \<Rightarrow>
               (let c = replayItems P (createCart uuid (service_ttlMs S) now) its now rnd 0;
                    (_, C1) = store_create (client S) c;
                    newToken = createRehydrationToken L now
                                 (map (\<lambda>item. sku_quantity (sku item) (quantity item)) (items c))
                                 (rehydrationSecret S)
                in (Inr \<lparr>cart = c, rehydrationToken = newToken\<rparr>, S\<lparr>client := C1\<rparr>))))"

section \<open>Notions of the specification\<close>

text \<open>The lines of a cart without their line identifiers: its SKU sequence with the
  quantities.\<close>

definition lines_of :: "Cart \<Rightarrow> (string \<times> int) list" where
  "lines_of c = map (\<lambda>item. (sku item, quantity item)) (items c)"

text \<open>
  The structural validation as the specification words it: \<^verbatim>\<open>iat\<close> is a number and
  \<^verbatim>\<open>items\<close> is a sequence of pairs of a string \<^verbatim>\<open>sku\<close> and a number
  \<^verbatim>\<open>quantity\<close>.
\<close>

definition spec_payload_valid :: "json \<Rightarrow> bool" where
  "spec_payload_valid payload =
     ((case getProp payload ''iat'' of Some (JNum _) \<Rightarrow> True | _ \<Rightarrow> False)
      \<and> payload_items payload \<noteq> None)"


text \<open>
  \<^verbatim>\<open>MergeItem\<close> as the specification words it, on lines without identifiers: if the
  SKU is already present the quantities sum, otherwise a new entry is appended.
\<close>

fun merge_line :: "(string \<times> int) list \<Rightarrow> string \<Rightarrow> int \<Rightarrow> (string \<times> int) list" where
  "merge_line [] s q = [(s, q)]"
| "merge_line ((s', q') # ls) s q =
     (if s' = s then (s', q' + q) # ls else (s', q') # merge_line ls s q)"

text \<open>
  A live sequence of add-item calls on the cart \<open>i\<close>: one call of \<^verbatim>\<open>addItem\<close> per
  element, each with its own instant and its own value of \<^verbatim>\<open>crypto.randomUUID()\<close>.
  The sequence stops at the first call that throws. \<open>c\<close> is the cart the caller holds
  so far.
\<close>

record AddItemCall =
  call_sku :: string
  call_quantity :: int
  call_now :: int
  call_uuid :: string

fun live_addItems ::
  "node_lib \<Rightarrow> pricing \<Rightarrow> CartService \<Rightarrow> string \<Rightarrow> AddItemCall list \<Rightarrow> Cart
     \<Rightarrow> (error + Cart) \<times> CartService" where
  "live_addItems L P S i [] c = (Inr c, S)"
| "live_addItems L P S i (call # rest) c =
     (case service_addItem L P S (call_now call) (call_uuid call) i
             (call_sku call) (call_quantity call) of
        (Inl e, S1) \<Rightarrow> (Inl e, S1)
      | (Inr resp, S1) \<Rightarrow> live_addItems L P S1 i rest (cart resp))"

text \<open>Every call of a sequence arrives no later than the expiry the call before it
  left: \<open>e\<close> is the current \<^verbatim>\<open>expiresAt\<close>.\<close>

fun within_ttl :: "int \<Rightarrow> int \<Rightarrow> int list \<Rightarrow> bool" where
  "within_ttl ttl e [] = True"
| "within_ttl ttl e (t # ts) = (t \<le> e \<and> within_ttl ttl (t + ttl) ts)"

section \<open>Concrete inputs\<close>

text \<open>
  A table-driven stand-in for the Node runtime, to run the model on concrete tokens:
  \<open>table\<close> lists the JSON texts with their values, base64url is the identity and the
  signature of \<open>data\<close> under \<open>secret\<close> is \<open>secret:data\<close>.
\<close>

definition stub_lib :: "(string \<times> json) list \<Rightarrow> node_lib" where
  "stub_lib table =
     \<lparr>jsonStringify = (\<lambda>j. case find (\<lambda>entry. snd entry = j) table of
                               Some entry \<Rightarrow> fst entry | None \<Rightarrow> ''null''),
      jsonParse = map_of table,
      base64url = (\<lambda>s. s),
      fromBase64url = (\<lambda>s. s),
      hmacSha256 = (\<lambda>secret data. secret @ '':'' @ data)\<rparr>"

text \<open>A tax rate of 13 percent whose products are exact.\<close>

definition demo_pricing :: pricing where
  "demo_pricing = \<lparr>TAX_RATE = 13 / 100, product_error = (\<lambda>n. 0)\<rparr>"

definition demo_items :: "(string \<times> int) list" where
  "demo_items = [(''PLAN-BASIC'', 2), (''ADDON-ROAM'', 1)]"

definition demo_payload :: json where
  "demo_payload =
     JObj [(''iat'', JNum 1000), (''items'', JArr (map (\<lambda>(s, q). sku_quantity s q) demo_items))]"

definition demo_lib :: node_lib where
  "demo_lib = stub_lib [(''PAYLOAD'', demo_payload)]"

definition demo_cart :: "string \<Rightarrow> int \<Rightarrow> Cart" where
  "demo_cart i e =
     \<lparr>cartId = i, items = [], totals = \<lparr>subtotal = Num 0, tax = Num 0, total_amount = Num 0\<rparr>,
      customer = None, createdAt = 0, updatedAt = 0, expiresAt = e\<rparr>"

definition demo_client :: SalesforceCartClient where
  "demo_client =
     \<lparr>ttlMs = 100, sweepIntervalMs = 60000, sweepScanLimit = 2, sweepBudgetMs = 50,
      carts = [(''a'', demo_cart ''a'' 100), (''b'', demo_cart ''b'' 300), (''c'', demo_cart ''c'' 100)]\<rparr>"

text \<open>A cart with one line in a service, a clock that stands still, and a sequence of
  distinct line identifiers.\<close>

definition demo_cart_with_line :: Cart where
  "demo_cart_with_line =
     (demo_cart ''b'' 300)
       \<lparr>items := [\<lparr>itemId = ''line-1'', sku = ''PLAN-BASIC'', quantity = 2\<rparr>],
        totals := \<lparr>subtotal = Num 3000, tax = Num 390, total_amount = Num 3390\<rparr>\<rparr>"

definition demo_service :: CartService where
  "demo_service =
     \<lparr>client = demo_client\<lparr>carts := [(''b'', demo_cart_with_line)]\<rparr>,
      service_ttlMs = 100, rehydrationSecret = ''secret'', rehydrationMaxAgeMs = 3600000\<rparr>"

definition frozen_clock :: "int \<Rightarrow> nat \<Rightarrow> int" where
  "frozen_clock t k = t"

definition zero_limit_client :: SalesforceCartClient where
  "zero_limit_client = demo_client\<lparr>sweepScanLimit := 0\<rparr>"

definition demo_rnd :: "nat \<Rightarrow> string" where
  "demo_rnd k = replicate (Suc k) CHR ''u''"

text \<open>Payloads that the declared type \<^verbatim>\<open>RehydrationTokenPayload\<close> excludes, with
  their texts: items that are no (sku, quantity) pairs, a payload without \<^verbatim>\<open>iat\<close>,
  and \<^verbatim>\<open>null\<close>.\<close>

definition bad_payload :: json where
  "bad_payload = JObj [(''iat'', JNum 1000), (''items'', JArr [JNum 7, JObj [(''sku'', JNum 1)]])]"

definition bad_lib :: node_lib where
  "bad_lib =
     stub_lib [(''BAD'', bad_payload), (''NOIAT'', JObj [(''items'', JArr [])]), (''NULL'', JNull)]"

section \<open>The store: lazy expiry on read and on update\<close>

text \<open>
  C1. \<^verbatim>\<open>get\<close>: when the map has no entry for the id, or the entry's \<^verbatim>\<open>expiresAt\<close>
  has passed, the result is absent and no entry for the id is left. Otherwise the result
  is the stored record with \<^verbatim>\<open>expiresAt\<close> set to \<open>now + ttl\<close> (and
  \<^verbatim>\<open>updatedAt\<close> to \<open>now\<close>), and that record replaces the stored one. A record that
  is returned was stored and had not expired, and with a non-negative \<open>ttl\<close> it has not
  expired itself. The other entries are left as they were.
\<close>

theorem store_get_lazy_expiry:
  "(map_of (carts C) i = None \<or> (\<exists>c. map_of (carts C) i = Some c \<and> isExpired c now)
      \<longrightarrow> fst (store_get C now i) = None
          \<and> map_of (carts (snd (store_get C now i))) i = None
          \<and> i \<notin> fst ` set (carts (snd (store_get C now i))))
   \<and> (\<forall>c. map_of (carts C) i = Some c \<and> \<not> isExpired c now
      \<longrightarrow> fst (store_get C now i) = Some (c\<lparr>updatedAt := now, expiresAt := now + ttlMs C\<rparr>)
          \<and> map_of (carts (snd (store_get C now i))) i
              = Some (c\<lparr>updatedAt := now, expiresAt := now + ttlMs C\<rparr>))
   \<and> (\<forall>r. fst (store_get C now i) = Some r
      \<longrightarrow> (\<exists>c. map_of (carts C) i = Some c \<and> \<not> isExpired c now)
          \<and> (0 \<le> ttlMs C \<longrightarrow> \<not> isExpired r now))
   \<and> (\<forall>j. j \<noteq> i \<longrightarrow> map_of (carts (snd (store_get C now i))) j = map_of (carts C) j)"
proof (cases "map_of (carts C) i")
  case None
  then have "i \<notin> fst ` set (carts C)"
    by (simp add: map_of_eq_None_iff)
  with None show ?thesis
    by (simp add: store_get_def)
next
  case (Some c)
  show ?thesis
  proof (cases "isExpired c now")
    case True
    with Some show ?thesis
      by (simp add: store_get_def AList.delete_conv' AList.delete_notin_dom)
  next
    case False
    with Some show ?thesis
      by (simp add: store_get_def refreshTtl_def isExpired_def Let_def AList.update_conv')
  qed
qed

theorem store_get_lazy_expiry_witness:
  "fst (store_get demo_client 200 ''a'') = None
   \<and> map_of (carts (snd (store_get demo_client 200 ''a''))) ''a'' = None
   \<and> fst (store_get demo_client 200 ''b'')
       = Some (demo_cart ''b'' 300 \<lparr>updatedAt := 200, expiresAt := 300\<rparr>)
   \<and> fst (store_get demo_client 200 ''zz'') = None"
  using store_get_lazy_expiry [of demo_client "''a''" 200]
    store_get_lazy_expiry [of demo_client "''b''" 200]
    store_get_lazy_expiry [of demo_client "''zz''" 200]
  by (simp add: demo_client_def demo_cart_def isExpired_def)

text \<open>
  C4. \<^verbatim>\<open>update\<close> throws exactly when the map has no entry for the record's id or
  the stored entry's \<^verbatim>\<open>expiresAt\<close> has passed, and what it throws is a
  \<^verbatim>\<open>NotFoundError\<close>; an expired entry is deleted, a missing one leaves the client as
  it was. Otherwise it returns the given record with \<^verbatim>\<open>expiresAt\<close> set to
  \<open>now + ttl\<close> and \<^verbatim>\<open>updatedAt\<close> to \<open>now\<close>, and stores it. The other entries are
  left as they were.
\<close>

theorem store_update_not_found:
  "(isl (fst (store_update C now c)) \<longleftrightarrow>
      map_of (carts C) (cartId c) = None
      \<or> (\<exists>e. map_of (carts C) (cartId c) = Some e \<and> isExpired e now))
   \<and> (\<forall>err. fst (store_update C now c) = Inl err \<longrightarrow> (\<exists>m. err = NotFoundError m))
   \<and> ((\<exists>e. map_of (carts C) (cartId c) = Some e \<and> isExpired e now) \<longrightarrow>
        map_of (carts (snd (store_update C now c))) (cartId c) = None)
   \<and> (map_of (carts C) (cartId c) = None \<longrightarrow> snd (store_update C now c) = C)
   \<and> (\<forall>e. map_of (carts C) (cartId c) = Some e \<and> \<not> isExpired e now \<longrightarrow>
        fst (store_update C now c) = Inr (c\<lparr>updatedAt := now, expiresAt := now + ttlMs C\<rparr>)
        \<and> map_of (carts (snd (store_update C now c))) (cartId c)
             = Some (c\<lparr>updatedAt := now, expiresAt := now + ttlMs C\<rparr>))
   \<and> (\<forall>j. j \<noteq> cartId c \<longrightarrow>
        map_of (carts (snd (store_update C now c))) j = map_of (carts C) j)"
proof (cases "map_of (carts C) (cartId c)")
  case None
  then show ?thesis
    by (simp add: store_update_def)
next
  case (Some e)
  show ?thesis
  proof (cases "isExpired e now")
    case True
    with Some show ?thesis
      by (simp add: store_update_def AList.delete_conv')
  next
    case False
    with Some show ?thesis
      by (simp add: store_update_def refreshTtl_def Let_def AList.update_conv')
  qed
qed

theorem store_update_not_found_witness:
  "isl (fst (store_update demo_client 200 (demo_cart ''a'' 900)))
   \<and> map_of (carts (snd (store_update demo_client 200 (demo_cart ''a'' 900)))) ''a'' = None
   \<and> isl (fst (store_update demo_client 200 (demo_cart ''zz'' 900)))
   \<and> fst (store_update demo_client 200 (demo_cart ''b'' 5))
       = Inr (demo_cart ''b'' 5 \<lparr>updatedAt := 200, expiresAt := 300\<rparr>)"
  using store_update_not_found [of demo_client 200 "demo_cart ''a'' 900"]
    store_update_not_found [of demo_client 200 "demo_cart ''zz'' 900"]
    store_update_not_found [of demo_client 200 "demo_cart ''b'' 5"]
  by (simp add: demo_client_def demo_cart_def isExpired_def)

section \<open>Merging a line into a cart\<close>

















section \<open>Signing and verifying tokens\<close>

lemma split_dot_nonempty: "split_dot s \<noteq> []"
  by (induction s) (auto split: list.splits)

lemma split_dot_no_dot: "CHR ''.'' \<notin> set s \<Longrightarrow> split_dot s = [s]"
  by (induction s) auto

lemma split_dot_append:
  "CHR ''.'' \<notin> set a \<Longrightarrow> split_dot (a @ CHR ''.'' # b) = a # split_dot b"
  by (induction a) auto

lemma verifyToken_signed:
  assumes "split_dot token = [encoded, hmacSha256 L secret encoded]"
    and "jsonParse L (fromBase64url L encoded) = Some payload"
    and "payload \<noteq> JNull"
  shows "verifyToken L now token secret maxAgeMs =
     (case (getProp payload ''iat'', getProp payload ''items'') of
        (Some (JNum iat), Some (JArr xs)) \<Rightarrow>
          if now - iat > maxAgeMs \<or> now - iat < 0
          then Inl (TokenError ''Token expired or invalid timestamp'')
          else Inr payload
      | _ \<Rightarrow> Inl (TokenError ''Token payload malformed''))"
  using assms by (simp add: verifyToken_def Let_def split: option.splits json.splits)

lemma verifyToken_Inr:
  assumes "verifyToken L now token secret maxAgeMs = Inr p"
  shows "\<exists>iat xs. getProp p ''iat'' = Some (JNum iat) \<and> getProp p ''items'' = Some (JArr xs)
           \<and> 0 \<le> now - iat \<and> now - iat \<le> maxAgeMs"
  using assms
  by (auto simp: verifyToken_def Let_def
      split: list.splits if_splits option.splits json.splits)

lemma those_items: "those (map item_of_json (map (\<lambda>(s, q). sku_quantity s q) its)) = Some its"
  by (induction its) (auto simp: sku_quantity_def)

text \<open>
  C2. A token signed at \<open>t0\<close> from a list of (sku, quantity) pairs and verified with the
  same secret at \<open>t1\<close>, with \<open>0 \<le> t1 - t0 \<le> maxAge\<close>, verifies, and the items of the
  payload it returns are the original list. The runtime is assumed to behave on this
  payload as Node does: no dot in the base64url text of the payload nor in the
  signature, and decoding and parsing the encoded payload gives the payload back.
\<close>

theorem token_round_trip:
  assumes "CHR ''.'' \<notin> set (base64url L (jsonStringify L
              (JObj [(''iat'', JNum t0), (''items'', JArr (map (\<lambda>(s, q). sku_quantity s q) its))])))"
    and "CHR ''.'' \<notin> set (hmacSha256 L secret (base64url L (jsonStringify L
              (JObj [(''iat'', JNum t0), (''items'', JArr (map (\<lambda>(s, q). sku_quantity s q) its))]))))"
    and "jsonParse L (fromBase64url L (base64url L (jsonStringify L
              (JObj [(''iat'', JNum t0), (''items'', JArr (map (\<lambda>(s, q). sku_quantity s q) its))]))))
           = Some (JObj [(''iat'', JNum t0), (''items'', JArr (map (\<lambda>(s, q). sku_quantity s q) its))])"
    and "0 \<le> t1 - t0" and "t1 - t0 \<le> maxAge"
  shows "\<exists>payload.
           verifyToken L t1
             (createRehydrationToken L t0 (map (\<lambda>(s, q). sku_quantity s q) its) secret)
             secret maxAge = Inr payload
           \<and> getProp payload ''items'' = Some (JArr (map (\<lambda>(s, q). sku_quantity s q) its))
           \<and> payload_items payload = Some its"
proof -
  let ?p = "JObj [(''iat'', JNum t0), (''items'', JArr (map (\<lambda>(s, q). sku_quantity s q) its))]"
  let ?enc = "base64url L (jsonStringify L ?p)"
  have tok: "createRehydrationToken L t0 (map (\<lambda>(s, q). sku_quantity s q) its) secret
               = ?enc @ CHR ''.'' # hmacSha256 L secret ?enc"
    by (simp add: createRehydrationToken_def generateToken_def Let_def)
  have sp: "split_dot (?enc @ CHR ''.'' # hmacSha256 L secret ?enc) = [?enc, hmacSha256 L secret ?enc]"
    using assms(1,2) by (simp add: split_dot_append split_dot_no_dot)
  have "verifyToken L t1 (?enc @ CHR ''.'' # hmacSha256 L secret ?enc) secret maxAge = Inr ?p"
    using assms(4,5) by (simp add: verifyToken_signed [OF sp assms(3)])
  moreover have "payload_items ?p = Some its"
    by (simp add: payload_items_def those_items del: map_map)
  ultimately show ?thesis
    by (simp add: tok)
qed

theorem token_round_trip_witness:
  "\<exists>payload. verifyToken demo_lib 3601000
      (createRehydrationToken demo_lib 1000 (map (\<lambda>(s, q). sku_quantity s q) demo_items) ''secret'')
      ''secret'' 3600000 = Inr payload
     \<and> getProp payload ''items'' = Some (JArr (map (\<lambda>(s, q). sku_quantity s q) demo_items))
     \<and> payload_items payload = Some demo_items"
  by (rule token_round_trip [of demo_lib 1000 demo_items "''secret''" 3601000 3600000])
    (simp_all add: demo_lib_def stub_lib_def demo_payload_def)

text \<open>
  C7. For a token with the right signature and a payload whose \<^verbatim>\<open>iat\<close> is a number
  and whose \<^verbatim>\<open>items\<close> is an array: verification at the age \<open>maxAge\<close> succeeds
  (\<open>maxAge\<close> not negative), at the age \<open>maxAge + 1\<close> it throws the expired-or-invalid
  timestamp \<^verbatim>\<open>TokenError\<close>, and before \<^verbatim>\<open>iat\<close> it throws that error whatever the
  maximal age is.
\<close>

theorem verifyToken_age_boundary:
  assumes "split_dot token = [encoded, signature]"
    and "signature = hmacSha256 L secret encoded"
    and "jsonParse L (fromBase64url L encoded) = Some payload"
    and "getProp payload ''iat'' = Some (JNum iat)"
    and "getProp payload ''items'' = Some (JArr xs)"
  shows "(0 \<le> maxAge \<longrightarrow> verifyToken L (iat + maxAge) token secret maxAge = Inr payload)
       \<and> verifyToken L (iat + maxAge + 1) token secret maxAge
             = Inl (TokenError ''Token expired or invalid timestamp'')
       \<and> (\<forall>now m. now < iat \<longrightarrow>
             verifyToken L now token secret m = Inl (TokenError ''Token expired or invalid timestamp''))"
proof -
  from assms(4) have nn: "payload \<noteq> JNull" by auto
  from assms(1,2) have sp: "split_dot token = [encoded, hmacSha256 L secret encoded]" by simp
  show ?thesis
    using assms(4,5) by (simp add: verifyToken_signed [OF sp assms(3) nn])
qed

theorem verifyToken_age_boundary_witness:
  "verifyToken demo_lib (1000 + 3600000) ''PAYLOAD.secret:PAYLOAD'' ''secret'' 3600000
     = Inr demo_payload
   \<and> verifyToken demo_lib (1000 + 3600000 + 1) ''PAYLOAD.secret:PAYLOAD'' ''secret'' 3600000
       = Inl (TokenError ''Token expired or invalid timestamp'')
   \<and> verifyToken demo_lib 999 ''PAYLOAD.secret:PAYLOAD'' ''secret'' 3600000
       = Inl (TokenError ''Token expired or invalid timestamp'')"
proof -
  have sp: "split_dot ''PAYLOAD.secret:PAYLOAD'' = [''PAYLOAD'', ''secret:PAYLOAD'']"
    by simp
  have sg: "''secret:PAYLOAD'' = hmacSha256 demo_lib ''secret'' ''PAYLOAD''"
    by (simp add: demo_lib_def stub_lib_def)
  have ps: "jsonParse demo_lib (fromBase64url demo_lib ''PAYLOAD'') = Some demo_payload"
    by (simp add: demo_lib_def stub_lib_def)
  have iat: "getProp demo_payload ''iat'' = Some (JNum 1000)"
    by (simp add: demo_payload_def)
  have its: "getProp demo_payload ''items'' = Some (JArr (map (\<lambda>(s, q). sku_quantity s q) demo_items))"
    by (simp add: demo_payload_def)
  note b = verifyToken_age_boundary [OF sp sg ps iat its, of 3600000]
  from b have "verifyToken demo_lib (1000 + 3600000) ''PAYLOAD.secret:PAYLOAD'' ''secret'' 3600000
     = Inr demo_payload"
    by simp
  moreover from b have
    "verifyToken demo_lib (1000 + 3600000 + 1) ''PAYLOAD.secret:PAYLOAD'' ''secret'' 3600000
       = Inl (TokenError ''Token expired or invalid timestamp'')"
    by blast
  moreover have "verifyToken demo_lib 999 ''PAYLOAD.secret:PAYLOAD'' ''secret'' 3600000
       = Inl (TokenError ''Token expired or invalid timestamp'')"
    using b [THEN conjunct2, THEN conjunct2, rule_format, of 999 3600000] by simp
  ultimately show ?thesis by blast
qed

text \<open>
  C6, as claimed, fails: a token that \<^verbatim>\<open>generateToken\<close> signed verifies although
  the elements of its \<^verbatim>\<open>items\<close> are no (sku, quantity) pairs.
\<close>

theorem verifyToken_unchecked_items_counterexample:
  "verifyToken bad_lib 2000 (generateToken bad_lib bad_payload ''secret'') ''secret'' 3600000
     = Inr bad_payload
   \<and> \<not> spec_payload_valid bad_payload"
  by (simp add: verifyToken_def generateToken_def bad_lib_def stub_lib_def bad_payload_def
      spec_payload_valid_def payload_items_def Let_def)

text \<open>
  C6, amended. For a token with the right signature whose payload parses to a value
  other than \<^verbatim>\<open>null\<close>: when \<^verbatim>\<open>iat\<close> is no number or \<^verbatim>\<open>items\<close> is no array,
  verification throws the payload-malformed \<^verbatim>\<open>TokenError\<close>; the elements of
  \<^verbatim>\<open>items\<close> are not looked at, and a payload that verification returns has a
  number \<^verbatim>\<open>iat\<close> and an array \<^verbatim>\<open>items\<close>.
\<close>

theorem verifyToken_structural_check:
  assumes "split_dot token = [encoded, signature]"
    and "signature = hmacSha256 L secret encoded"
    and "jsonParse L (fromBase64url L encoded) = Some payload"
    and "payload \<noteq> JNull"
  shows "((\<forall>n. getProp payload ''iat'' \<noteq> Some (JNum n))
          \<or> (\<forall>xs. getProp payload ''items'' \<noteq> Some (JArr xs))
         \<longrightarrow> verifyToken L now token secret maxAge = Inl (TokenError ''Token payload malformed''))
       \<and> (\<forall>p. verifyToken L now token secret maxAge = Inr p \<longrightarrow>
            p = payload
            \<and> (\<exists>n xs. getProp p ''iat'' = Some (JNum n) \<and> getProp p ''items'' = Some (JArr xs)))"
proof -
  from assms(1,2) have sp: "split_dot token = [encoded, hmacSha256 L secret encoded]" by simp
  have "(\<forall>n. getProp payload ''iat'' \<noteq> Some (JNum n))
          \<or> (\<forall>xs. getProp payload ''items'' \<noteq> Some (JArr xs))
         \<longrightarrow> verifyToken L now token secret maxAge = Inl (TokenError ''Token payload malformed'')"
    by (auto simp: verifyToken_signed [OF sp assms(3,4)] split: option.splits json.splits)
  moreover have "\<forall>p. verifyToken L now token secret maxAge = Inr p \<longrightarrow>
            p = payload
            \<and> (\<exists>n xs. getProp p ''iat'' = Some (JNum n) \<and> getProp p ''items'' = Some (JArr xs))"
    by (auto simp: verifyToken_signed [OF sp assms(3,4)] split: option.splits json.splits if_splits)
  ultimately show ?thesis by blast
qed

theorem verifyToken_structural_check_witness:
  "verifyToken bad_lib 2000 ''NOIAT.secret:NOIAT'' ''secret'' 3600000
     = Inl (TokenError ''Token payload malformed'')"
proof -
  have sp: "split_dot ''NOIAT.secret:NOIAT'' = [''NOIAT'', ''secret:NOIAT'']"
    by simp
  have sg: "''secret:NOIAT'' = hmacSha256 bad_lib ''secret'' ''NOIAT''"
    by (simp add: bad_lib_def stub_lib_def)
  have ps: "jsonParse bad_lib (fromBase64url bad_lib ''NOIAT'') = Some (JObj [(''items'', JArr [])])"
    by (simp add: bad_lib_def stub_lib_def)
  have nn: "JObj [(''items'', JArr [])] \<noteq> JNull"
    by simp
  from verifyToken_structural_check [OF sp sg ps nn, of 2000 3600000, THEN conjunct1]
  show ?thesis
    by simp
qed

text \<open>A signed \<^verbatim>\<open>null\<close> payload ends in the runtime's \<^verbatim>\<open>TypeError\<close>.\<close>

lemma verifyToken_null_payload:
  "verifyToken bad_lib 2000 (generateToken bad_lib JNull ''secret'') ''secret'' 3600000 = Inl TypeError"
  by (simp add: verifyToken_def generateToken_def bad_lib_def stub_lib_def bad_payload_def Let_def)

section \<open>The bounded sweep\<close>

lemma sweep_loop_config:
  "sweepScanLimit (fst (sweep_loop C st eC bC es n)) = sweepScanLimit C
   \<and> sweepBudgetMs (fst (sweep_loop C st eC bC es n)) = sweepBudgetMs C
   \<and> ttlMs (fst (sweep_loop C st eC bC es n)) = ttlMs C
   \<and> sweepIntervalMs (fst (sweep_loop C st eC bC es n)) = sweepIntervalMs C"
  by (induction es arbitrary: C n) (auto simp: Let_def)

lemma sweep_loop_scanned:
  "n \<le> snd (sweep_loop C st eC bC es n)
   \<and> snd (sweep_loop C st eC bC es n) \<le> n + length es
   \<and> (int n < sweepScanLimit C \<longrightarrow> int (snd (sweep_loop C st eC bC es n)) \<le> sweepScanLimit C)"
proof (induction es arbitrary: C n)
  case Nil
  then show ?case by simp
next
  case (Cons e es)
  obtain i c where e: "e = (i, c)" by (cases e)
  let ?C1 = "if isExpired c (eC n) then C\<lparr>carts := AList.delete i (carts C)\<rparr> else C"
  have lim: "sweepScanLimit ?C1 = sweepScanLimit C" by simp
  from Cons.IH [of "Suc n" ?C1] lim show ?case
    by (auto simp: e Let_def)
qed

lemma sweep_loop_unbudgeted:
  assumes "\<forall>j. bC j - st < sweepBudgetMs C" and "int n < sweepScanLimit C"
  shows "snd (sweep_loop C st eC bC es n) = min (nat (sweepScanLimit C)) (n + length es)"
  using assms
proof (induction es arbitrary: C n)
  case Nil
  then show ?case by simp
next
  case (Cons e es)
  obtain i c where e: "e = (i, c)" by (cases e)
  let ?C1 = "if isExpired c (eC n) then C\<lparr>carts := AList.delete i (carts C)\<rparr> else C"
  have cfg: "sweepScanLimit ?C1 = sweepScanLimit C" "sweepBudgetMs ?C1 = sweepBudgetMs C"
    by simp_all
  show ?case
  proof (cases "int (Suc n) \<ge> sweepScanLimit C")
    case True
    with Cons.prems(2) have "nat (sweepScanLimit C) = Suc n" by linarith
    with True cfg show ?thesis
      by (simp add: e Let_def)
  next
    case False
    with Cons.IH [of ?C1 "Suc n"] Cons.prems(1) cfg have
      "snd (sweep_loop ?C1 st eC bC es (Suc n)) = min (nat (sweepScanLimit C)) (Suc n + length es)"
      by simp
    moreover from Cons.prems(1) have "\<not> bC n - st \<ge> sweepBudgetMs C"
      by (simp add: not_le)
    ultimately show ?thesis
      using False cfg by (simp add: e Let_def)
  qed
qed

lemma sweep_loop_carts:
  "carts (fst (sweep_loop C st eC bC es n)) =
     filter (\<lambda>entry. \<forall>j < snd (sweep_loop C st eC bC es n) - n.
                fst (es ! j) = fst entry \<longrightarrow> \<not> isExpired (snd (es ! j)) (eC (n + j)))
       (carts C)"
proof (induction es arbitrary: C n)
  case Nil
  then show ?case by simp
next
  case (Cons e es)
  obtain i c where e: "e = (i, c)" by (cases e)
  let ?C1 = "if isExpired c (eC n) then C\<lparr>carts := AList.delete i (carts C)\<rparr> else C"
  have cfg: "sweepScanLimit ?C1 = sweepScanLimit C" "sweepBudgetMs ?C1 = sweepBudgetMs C"
    by simp_all
  have c1: "carts ?C1 = filter (\<lambda>entry. i = fst entry \<longrightarrow> \<not> isExpired c (eC n)) (carts C)"
    by (auto simp: AList.delete_eq intro: filter_cong)
  show ?case
  proof (cases "int (Suc n) \<ge> sweepScanLimit C \<or> bC n - st \<ge> sweepBudgetMs C")
    case True
    then have "sweep_loop C st eC bC (e # es) n = (?C1, Suc n)"
      using cfg by (auto simp: e Let_def)
    then show ?thesis
      using c1 by (simp add: e)
  next
    case False
    then have step: "sweep_loop C st eC bC (e # es) n = sweep_loop ?C1 st eC bC es (Suc n)"
      using cfg by (auto simp: e Let_def)
    let ?m = "snd (sweep_loop ?C1 st eC bC es (Suc n))"
    have ge: "Suc n \<le> ?m"
      using sweep_loop_scanned [of "Suc n" ?C1 st eC bC es] by simp
    then have d: "?m - n = Suc (?m - Suc n)" by simp
    have "carts (fst (sweep_loop ?C1 st eC bC es (Suc n))) =
       filter (\<lambda>entry. \<forall>j < ?m - Suc n.
                fst (es ! j) = fst entry \<longrightarrow> \<not> isExpired (snd (es ! j)) (eC (Suc n + j)))
         (carts ?C1)"
      by (rule Cons.IH)
    also have "\<dots> = filter (\<lambda>entry. \<forall>j < ?m - n.
                fst ((e # es) ! j) = fst entry \<longrightarrow> \<not> isExpired (snd ((e # es) ! j)) (eC (n + j)))
         (carts C)"
      unfolding c1 d by (auto simp: e All_less_Suc2 intro: filter_cong)
    finally show ?thesis
      by (simp only: step)
  qed
qed

text \<open>
  C9. With a scan limit of zero a run on a store that is not empty examines one entry, one
  more than the limit: the limit is tested only after an entry has been examined and
  counted. Here the run examines the first of three carts and, as it has expired, deletes
  it.
\<close>

theorem sweep_zero_limit_examines_one:
  "sweepScanLimit zero_limit_client = 0
   \<and> store_size zero_limit_client = 3
   \<and> snd (sweep zero_limit_client 200 (frozen_clock 200) (frozen_clock 200)) = 1
   \<and> \<not> int (snd (sweep zero_limit_client 200 (frozen_clock 200) (frozen_clock 200)))
         \<le> sweepScanLimit zero_limit_client
   \<and> map_of (carts (fst (sweep zero_limit_client 200 (frozen_clock 200) (frozen_clock 200)))) ''a''
       = None
   \<and> store_size (fst (sweep zero_limit_client 200 (frozen_clock 200) (frozen_clock 200))) = 2"
  by (simp add: sweep_def store_size_def zero_limit_client_def demo_client_def demo_cart_def
      isExpired_def frozen_clock_def Let_def)

text \<open>
  With a scan limit of at least one, a run examines at most \<^verbatim>\<open>sweepScanLimit\<close>
  entries and at most as many as the store holds, and exactly the smaller of the two when
  the time budget is never used up. The examined entries are the first ones in the map's
  order; each of them whose \<^verbatim>\<open>expiresAt\<close> has passed when it is examined is gone
  afterwards. No entry is added, and with distinct keys every entry that was not examined
  or had not expired is still there.
\<close>

lemma sweep_bounded:
  assumes "1 \<le> sweepScanLimit C"
  shows "int (snd (sweep C st eC bC)) \<le> sweepScanLimit C
       \<and> snd (sweep C st eC bC) \<le> length (carts C)
       \<and> ((\<forall>j. bC j - st < sweepBudgetMs C) \<longrightarrow>
            snd (sweep C st eC bC) = min (nat (sweepScanLimit C)) (length (carts C)))
       \<and> (\<forall>j < snd (sweep C st eC bC).
            isExpired (snd (carts C ! j)) (eC j) \<longrightarrow>
              fst (carts C ! j) \<notin> fst ` set (carts (fst (sweep C st eC bC))))
       \<and> set (carts (fst (sweep C st eC bC))) \<subseteq> set (carts C)
       \<and> (distinct (map fst (carts C)) \<longrightarrow>
            (\<forall>j < length (carts C).
               snd (sweep C st eC bC) \<le> j \<or> \<not> isExpired (snd (carts C ! j)) (eC j) \<longrightarrow>
                 carts C ! j \<in> set (carts (fst (sweep C st eC bC)))))"
proof -
  let ?R = "sweep_loop C st eC bC (carts C) 0"
  from assms have lt: "int 0 < sweepScanLimit C" by simp
  have bound: "int (snd ?R) \<le> sweepScanLimit C" "snd ?R \<le> length (carts C)"
    using sweep_loop_scanned [of 0 C st eC bC "carts C"] lt by simp_all
  have stop: "(\<forall>j. bC j - st < sweepBudgetMs C) \<longrightarrow>
            snd ?R = min (nat (sweepScanLimit C)) (length (carts C))"
    using sweep_loop_unbudgeted [of bC st C 0 eC "carts C"] lt by simp
  have cs: "carts (fst ?R) =
     filter (\<lambda>entry. \<forall>j < snd ?R. fst (carts C ! j) = fst entry
                \<longrightarrow> \<not> isExpired (snd (carts C ! j)) (eC j)) (carts C)"
    using sweep_loop_carts [of C st eC bC "carts C" 0] by simp
  have del: "\<forall>j < snd ?R. isExpired (snd (carts C ! j)) (eC j) \<longrightarrow>
              fst (carts C ! j) \<notin> fst ` set (carts (fst ?R))"
    unfolding cs by auto
  have sub: "set (carts (fst ?R)) \<subseteq> set (carts C)"
    unfolding cs by auto
  have keep: "distinct (map fst (carts C)) \<longrightarrow>
            (\<forall>j < length (carts C).
               snd ?R \<le> j \<or> \<not> isExpired (snd (carts C ! j)) (eC j) \<longrightarrow>
                 carts C ! j \<in> set (carts (fst ?R)))"
  proof (intro impI allI)
    fix j
    assume dist: "distinct (map fst (carts C))" and j: "j < length (carts C)"
      and ok: "snd ?R \<le> j \<or> \<not> isExpired (snd (carts C ! j)) (eC j)"
    have "\<forall>k < snd ?R. fst (carts C ! k) = fst (carts C ! j)
            \<longrightarrow> \<not> isExpired (snd (carts C ! k)) (eC k)"
    proof (intro allI impI)
      fix k
      assume k: "k < snd ?R" and same: "fst (carts C ! k) = fst (carts C ! j)"
      from k bound(2) have kl: "k < length (carts C)" by simp
      have "(map fst (carts C) ! k = map fst (carts C) ! j) = (k = j)"
        using dist kl j by (intro nth_eq_iff_index_eq) simp_all
      with same kl j have "k = j" by simp
      with k ok show "\<not> isExpired (snd (carts C ! k)) (eC k)" by simp
    qed
    with j show "carts C ! j \<in> set (carts (fst ?R))"
      unfolding cs by simp
  qed
  from bound stop del sub keep show ?thesis
    unfolding sweep_def by blast
qed

lemma sweep_bounded_example:
  "1 \<le> sweepScanLimit demo_client
   \<and> int (snd (sweep demo_client 200 (frozen_clock 200) (frozen_clock 200))) \<le> sweepScanLimit demo_client
   \<and> ''a'' \<notin> fst ` set (carts (fst (sweep demo_client 200 (frozen_clock 200) (frozen_clock 200))))"
proof -
  let ?R = "sweep demo_client 200 (frozen_clock 200) (frozen_clock 200)"
  have h: "1 \<le> sweepScanLimit demo_client"
    by (simp add: demo_client_def)
  have n: "snd ?R = 2"
    by (simp add: sweep_def demo_client_def demo_cart_def isExpired_def frozen_clock_def Let_def)
  from sweep_bounded [OF h, of 200 "frozen_clock 200" "frozen_clock 200"]
  have b: "int (snd ?R) \<le> sweepScanLimit demo_client"
    and d: "\<forall>j < snd ?R. isExpired (snd (carts demo_client ! j)) (frozen_clock 200 j) \<longrightarrow>
              fst (carts demo_client ! j) \<notin> fst ` set (carts (fst ?R))"
    by blast+
  from d n have "isExpired (snd (carts demo_client ! 0)) (frozen_clock 200 0) \<longrightarrow>
              fst (carts demo_client ! 0) \<notin> fst ` set (carts (fst ?R))"
    by simp
  then have "''a'' \<notin> fst ` set (carts (fst ?R))"
    by (simp add: demo_client_def demo_cart_def isExpired_def frozen_clock_def)
  with h b show ?thesis by simp
qed

section \<open>Tokens minted by the service\<close>

lemma lines_json_items:
  "map (\<lambda>(s, q). sku_quantity s q) (lines_of c)
     = map (\<lambda>item. sku_quantity (sku item) (quantity item)) (items c)"
  by (simp add: lines_of_def)

lemma service_getCart_config:
  "service_getCart S now i = (r, S1) \<Longrightarrow>
     rehydrationSecret S1 = rehydrationSecret S \<and> service_ttlMs S1 = service_ttlMs S
     \<and> rehydrationMaxAgeMs S1 = rehydrationMaxAgeMs S"
  by (auto simp: service_getCart_def split: prod.splits option.splits)

lemma service_addItem_token:
  assumes "service_addItem L t S now uuid i s q = (Inr resp, S')"
  shows "rehydrationToken resp =
           generateToken L
             (JObj [(''iat'', JNum now),
                    (''items'', JArr (map (\<lambda>(s, q). sku_quantity s q) (lines_of (cart resp))))])
             (rehydrationSecret S)"
  using assms
  by (auto simp: service_addItem_def Let_def createRehydrationToken_def lines_json_items
      dest: service_getCart_config split: prod.splits sum.splits)

lemma service_rehydrateCart_token:
  assumes "service_rehydrateCart L t S now uuid rnd token = (Inr resp, S')"
  shows "rehydrationToken resp =
           generateToken L
             (JObj [(''iat'', JNum now),
                    (''items'', JArr (map (\<lambda>(s, q). sku_quantity s q) (lines_of (cart resp))))])
             (rehydrationSecret S)"
  using assms
  by (auto simp: service_rehydrateCart_def Let_def createRehydrationToken_def lines_json_items
      split: prod.splits sum.splits option.splits)

lemma service_createCart_token:
  "rehydrationToken (fst (service_createCart L S now uuid)) =
           generateToken L
             (JObj [(''iat'', JNum now),
                    (''items'', JArr (map (\<lambda>(s, q). sku_quantity s q)
                       (lines_of (cart (fst (service_createCart L S now uuid))))))])
             (rehydrationSecret S)"
  by (simp add: service_createCart_def Let_def createRehydrationToken_def lines_of_def
      createCart_def split: prod.splits)

text \<open>
  C10. The token that \<^verbatim>\<open>createCart\<close>, \<^verbatim>\<open>addItem\<close> and \<^verbatim>\<open>rehydrateCart\<close>
  return is the signed payload of the instant \<open>now\<close> and the (sku, quantity) pairs of
  the returned cart's lines, and of nothing else: no line identifier, no customer data, no
  totals. So two responses at the same instant under the same secret whose carts have the
  same (sku, quantity) sequence carry the same token, whatever their stores, cart and line
  identifiers and tax rates are.
\<close>

theorem minted_tokens_items_only:
  "rehydrationToken (fst (service_createCart L S now uuid)) =
     generateToken L
       (JObj [(''iat'', JNum now),
              (''items'', JArr (map (\<lambda>(s, q). sku_quantity s q)
                 (lines_of (cart (fst (service_createCart L S now uuid))))))])
       (rehydrationSecret S)
   \<and> (\<forall>resp S'. service_addItem L t S now uuid i s q = (Inr resp, S') \<longrightarrow>
         rehydrationToken resp =
           generateToken L
             (JObj [(''iat'', JNum now),
                    (''items'', JArr (map (\<lambda>(s, q). sku_quantity s q) (lines_of (cart resp))))])
             (rehydrationSecret S))
   \<and> (\<forall>resp S'. service_rehydrateCart L t S now uuid rnd token = (Inr resp, S') \<longrightarrow>
         rehydrationToken resp =
           generateToken L
             (JObj [(''iat'', JNum now),
                    (''items'', JArr (map (\<lambda>(s, q). sku_quantity s q) (lines_of (cart resp))))])
             (rehydrationSecret S))
   \<and> (\<forall>resp S' t2 S2 uuid2 i2 s2 q2 resp2 S2'.
         service_addItem L t S now uuid i s q = (Inr resp, S')
         \<and> service_addItem L t2 S2 now uuid2 i2 s2 q2 = (Inr resp2, S2')
         \<and> rehydrationSecret S2 = rehydrationSecret S
         \<and> lines_of (cart resp2) = lines_of (cart resp)
         \<longrightarrow> rehydrationToken resp2 = rehydrationToken resp)
   \<and> (\<forall>resp S' t2 S2 uuid2 rnd2 token2 resp2 S2'.
         service_addItem L t S now uuid i s q = (Inr resp, S')
         \<and> service_rehydrateCart L t2 S2 now uuid2 rnd2 token2 = (Inr resp2, S2')
         \<and> rehydrationSecret S2 = rehydrationSecret S
         \<and> lines_of (cart resp2) = lines_of (cart resp)
         \<longrightarrow> rehydrationToken resp2 = rehydrationToken resp)"
proof (intro conjI allI impI)
  show "rehydrationToken (fst (service_createCart L S now uuid)) =
     generateToken L
       (JObj [(''iat'', JNum now),
              (''items'', JArr (map (\<lambda>(s, q). sku_quantity s q)
                 (lines_of (cart (fst (service_createCart L S now uuid))))))])
       (rehydrationSecret S)"
    by (rule service_createCart_token)
next
  fix resp S'
  assume "service_addItem L t S now uuid i s q = (Inr resp, S')"
  then show "rehydrationToken resp =
           generateToken L
             (JObj [(''iat'', JNum now),
                    (''items'', JArr (map (\<lambda>(s, q). sku_quantity s q) (lines_of (cart resp))))])
             (rehydrationSecret S)"
    by (rule service_addItem_token)
next
  fix resp S'
  assume "service_rehydrateCart L t S now uuid rnd token = (Inr resp, S')"
  then show "rehydrationToken resp =
           generateToken L
             (JObj [(''iat'', JNum now),
                    (''items'', JArr (map (\<lambda>(s, q). sku_quantity s q) (lines_of (cart resp))))])
             (rehydrationSecret S)"
    by (rule service_rehydrateCart_token)
next
  fix resp S' t2 S2 uuid2 i2 s2 q2 resp2 S2'
  assume "service_addItem L t S now uuid i s q = (Inr resp, S')
         \<and> service_addItem L t2 S2 now uuid2 i2 s2 q2 = (Inr resp2, S2')
         \<and> rehydrationSecret S2 = rehydrationSecret S
         \<and> lines_of (cart resp2) = lines_of (cart resp)"
  then show "rehydrationToken resp2 = rehydrationToken resp"
    by (auto dest!: service_addItem_token)
next
  fix resp S' t2 S2 uuid2 rnd2 token2 resp2 S2'
  assume "service_addItem L t S now uuid i s q = (Inr resp, S')
         \<and> service_rehydrateCart L t2 S2 now uuid2 rnd2 token2 = (Inr resp2, S2')
         \<and> rehydrationSecret S2 = rehydrationSecret S
         \<and> lines_of (cart resp2) = lines_of (cart resp)"
  then show "rehydrationToken resp2 = rehydrationToken resp"
    by (auto dest!: service_addItem_token service_rehydrateCart_token)
qed

theorem minted_tokens_items_only_witness:
  "\<exists>resp S'.
      service_addItem demo_lib demo_pricing demo_service 200 ''line-2'' ''b'' ''ADDON-ROAM'' 1
        = (Inr resp, S')
      \<and> rehydrationToken resp =
          generateToken demo_lib
            (JObj [(''iat'', JNum 200),
                   (''items'', JArr [sku_quantity ''PLAN-BASIC'' 2, sku_quantity ''ADDON-ROAM'' 1])])
            ''secret''"
proof -
  have "\<exists>resp S'.
      service_addItem demo_lib demo_pricing demo_service 200 ''line-2'' ''b'' ''ADDON-ROAM'' 1
        = (Inr resp, S')
      \<and> lines_of (cart resp) = [(''PLAN-BASIC'', 2), (''ADDON-ROAM'', 1)]"
    by (simp add: service_addItem_def service_getCart_def store_get_def store_update_def
        mergeItem_def refreshTtl_def isExpired_def lines_of_def demo_service_def demo_client_def
        demo_cart_with_line_def demo_cart_def Let_def)
  then obtain resp S' where
    r: "service_addItem demo_lib demo_pricing demo_service 200 ''line-2'' ''b'' ''ADDON-ROAM'' 1
          = (Inr resp, S')"
    and l: "lines_of (cart resp) = [(''PLAN-BASIC'', 2), (''ADDON-ROAM'', 1)]"
    by blast
  have "rehydrationToken resp =
           generateToken demo_lib
             (JObj [(''iat'', JNum 200),
                    (''items'', JArr (map (\<lambda>(s, q). sku_quantity s q) (lines_of (cart resp))))])
             (rehydrationSecret demo_service)"
    by (rule minted_tokens_items_only
          [of demo_lib demo_service 200 "''line-2''" demo_pricing "''b''" "''ADDON-ROAM''" 1,
           THEN conjunct2, THEN conjunct1, rule_format, OF r])
  with r l show ?thesis
    by (simp add: demo_service_def)
qed

section \<open>Removing a line that the cart does not have\<close>

text \<open>
  C8. The service's \<^verbatim>\<open>removeItem\<close> with a line identifier that the cart does not
  have throws nothing: it returns the cart with its lines as they were.
\<close>

theorem service_removeItem_missing_line:
  "fst (service_removeItem demo_pricing demo_service 200 ''b'' ''no-such-line'')
     = Inr (demo_cart_with_line\<lparr>updatedAt := 200, expiresAt := 300\<rparr>)
   \<and> ''no-such-line'' \<notin> itemId ` set (items demo_cart_with_line)"
  by (simp add: service_removeItem_def service_getCart_def store_get_def store_update_def
      removeItem_def calculateTotals_def getPrice_def MOCK_PRICES_def DEFAULT_PRICE_def
      refreshTtl_def isExpired_def demo_service_def demo_client_def demo_cart_with_line_def
      demo_cart_def demo_pricing_def Let_def)

section \<open>Rehydration replays the items\<close>

lemma merged_lines:
  "map (\<lambda>item. (sku item, quantity item))
     (if findIndex (\<lambda>item. sku item = s) xs \<ge> 0
      then xs[nat (findIndex (\<lambda>item. sku item = s) xs) :=
              (xs ! nat (findIndex (\<lambda>item. sku item = s) xs))
                \<lparr>quantity := quantity (xs ! nat (findIndex (\<lambda>item. sku item = s) xs)) + q\<rparr>]
      else xs @ [\<lparr>itemId = newId, sku = s, quantity = q\<rparr>])
   = merge_line (map (\<lambda>item. (sku item, quantity item)) xs) s q"
proof (induction xs)
  case Nil
  then show ?case by simp
next
  case (Cons x xs)
  show ?case
  proof (cases "sku x = s")
    case True
    then show ?thesis by simp
  next
    case False
    show ?thesis
    proof (cases "findIndex (\<lambda>item. sku item = s) xs \<ge> 0")
      case True
      with False Cons.IH show ?thesis
        by (simp add: Let_def nat_add_distrib)
    next
      case False2: False
      with False Cons.IH show ?thesis
        by (simp add: Let_def)
    qed
  qed
qed

lemma lines_of_mergeItem:
  "lines_of (mergeItem t c s q now newId) = merge_line (lines_of c) s q"
  using merged_lines [of s "items c" q newId]
  by (simp add: lines_of_def mergeItem_def Let_def)

lemma totals_mergeItem:
  "totals (mergeItem t c s q now newId) = calculateTotals t (items (mergeItem t c s q now newId))"
  by (simp add: mergeItem_def Let_def)

lemma mergeItem_frame:
  "cartId (mergeItem t c s q now newId) = cartId c
   \<and> createdAt (mergeItem t c s q now newId) = createdAt c
   \<and> expiresAt (mergeItem t c s q now newId) = expiresAt c
   \<and> customer (mergeItem t c s q now newId) = customer c"
  by (simp add: mergeItem_def Let_def)

lemma subtotal_lines:
  "foldl (\<lambda>sum item. num_add sum (num_mul (getPrice (sku item)) (Num (quantity item)))) a xs
     = foldl (\<lambda>sum line. num_add sum (num_mul (getPrice (fst line)) (Num (snd line)))) a
         (map (\<lambda>item. (sku item, quantity item)) xs)"
  by (induction xs arbitrary: a) simp_all

lemma calculateTotals_lines:
  assumes "map (\<lambda>item. (sku item, quantity item)) xs = map (\<lambda>item. (sku item, quantity item)) ys"
  shows "calculateTotals t xs = calculateTotals t ys"
  using assms by (simp add: calculateTotals_def subtotal_lines)

lemma calculateTotals_Nil:
  "calculateTotals t [] = \<lparr>subtotal = Num 0, tax = Num 0, total_amount = Num 0\<rparr>"
  by (simp add: calculateTotals_def Let_def)

lemma replayItems_lines:
  "lines_of (replayItems t c its now rnd k)
     = foldl (\<lambda>ls (s, q). merge_line ls s q) (lines_of c) its"
  by (induction its arbitrary: c k) (auto simp: lines_of_mergeItem)

lemma replayItems_totals:
  "totals c = calculateTotals t (items c) \<Longrightarrow>
     totals (replayItems t c its now rnd k) = calculateTotals t (items (replayItems t c its now rnd k))"
  by (induction its arbitrary: c k) (auto simp: totals_mergeItem)

lemma replayItems_frame:
  "cartId (replayItems t c its now rnd k) = cartId c
   \<and> createdAt (replayItems t c its now rnd k) = createdAt c
   \<and> expiresAt (replayItems t c its now rnd k) = expiresAt c"
  by (induction its arbitrary: c k) (auto simp: mergeItem_frame)

lemma replayItems_fold:
  "replayItems t c its now rnd k
     = foldl (\<lambda>c (j, s, q). mergeItem t c s q now (rnd j)) c (zip [k..<k + length its] its)"
proof (induction its arbitrary: c k)
  case Nil
  then show ?case by simp
next
  case (Cons x its)
  obtain s q where x: "x = (s, q)" by (cases x)
  have "[k..<k + length (x # its)] = k # [Suc k..<Suc k + length its]"
    by (subst upt_rec) simp
  with Cons.IH [of "mergeItem t c s q now (rnd k)" "Suc k"] show ?case
    by (simp add: x)
qed

lemma service_addItem_step:
  assumes "service_addItem L t S now uuid i s q = (Inr resp, S')"
    and "map_of (carts (client S)) i = Some c0"
  shows "cart resp = mergeItem t (c0\<lparr>updatedAt := now, expiresAt := now + ttlMs (client S)\<rparr>) s q now uuid
       \<and> (cartId c0 = i \<longrightarrow>
            map_of (carts (client S')) i
              = Some ((cart resp)\<lparr>updatedAt := now, expiresAt := now + ttlMs (client S)\<rparr>))
       \<and> ttlMs (client S') = ttlMs (client S)"
  using assms
  by (auto simp: service_addItem_def service_getCart_def store_get_def store_update_def
      refreshTtl_def Let_def mergeItem_frame AList.update_conv'
      split: prod.splits sum.splits option.splits if_splits)

lemma service_addItem_succeeds:
  assumes "map_of (carts (client S)) i = Some c0" and "cartId c0 = i"
    and "now \<le> expiresAt c0" and "0 \<le> ttlMs (client S)"
  shows "\<exists>resp S'. service_addItem L t S now uuid i s q = (Inr resp, S')"
  using assms
  by (simp add: service_addItem_def service_getCart_def store_get_def store_update_def
      refreshTtl_def isExpired_def Let_def mergeItem_frame AList.update_conv')

lemma live_addItems_lines:
  assumes "live_addItems L t S i steps c = (Inr c', S')"
    and "map_of (carts (client S)) i = Some c0" and "cartId c0 = i"
    and "items c0 = items c" and "totals c = calculateTotals t (items c)"
  shows "lines_of c' = foldl (\<lambda>ls (s, q). merge_line ls s q) (lines_of c)
                         (map (\<lambda>call. (call_sku call, call_quantity call)) steps)
       \<and> totals c' = calculateTotals t (items c')"
  using assms
proof (induction steps arbitrary: S c c0)
  case Nil
  then show ?case by simp
next
  case (Cons st steps)
  define s q now uuid where "s = call_sku st" and "q = call_quantity st"
    and "now = call_now st" and "uuid = call_uuid st"
  note st = s_def q_def now_def uuid_def
  from Cons.prems(1) obtain resp S1 where
    add: "service_addItem L t S now uuid i s q = (Inr resp, S1)"
    and rest: "live_addItems L t S1 i steps (cart resp) = (Inr c', S')"
    by (auto simp: st split: prod.splits sum.splits)
  from service_addItem_step [OF add Cons.prems(2)] Cons.prems(3) have
    c: "cart resp = mergeItem t (c0\<lparr>updatedAt := now, expiresAt := now + ttlMs (client S)\<rparr>) s q now uuid"
    and stored: "map_of (carts (client S1)) i
              = Some ((cart resp)\<lparr>updatedAt := now, expiresAt := now + ttlMs (client S)\<rparr>)"
    by simp_all
  have l0: "lines_of (c0\<lparr>updatedAt := now, expiresAt := now + ttlMs (client S)\<rparr>) = lines_of c"
    using Cons.prems(4) by (simp add: lines_of_def)
  have l: "lines_of (cart resp) = merge_line (lines_of c) s q"
    by (simp add: c lines_of_mergeItem l0)
  have tot: "totals (cart resp) = calculateTotals t (items (cart resp))"
    by (simp add: c totals_mergeItem)
  have id: "cartId ((cart resp)\<lparr>updatedAt := now, expiresAt := now + ttlMs (client S)\<rparr>) = i"
    using Cons.prems(3) by (simp add: c mergeItem_frame)
  have "lines_of c' = foldl (\<lambda>ls (s, q). merge_line ls s q) (lines_of (cart resp))
                         (map (\<lambda>call. (call_sku call, call_quantity call)) steps)
       \<and> totals c' = calculateTotals t (items c')"
    by (rule Cons.IH [OF rest stored id _ tot]) simp
  then show ?case
    by (simp add: st l)
qed

lemma live_addItems_succeeds:
  assumes "map_of (carts (client S)) i = Some c0" and "cartId c0 = i"
    and "0 \<le> ttlMs (client S)"
    and "within_ttl (ttlMs (client S)) (expiresAt c0) (map call_now steps)"
  shows "\<exists>c' S'. live_addItems L t S i steps c = (Inr c', S')"
  using assms
proof (induction steps arbitrary: S c c0)
  case Nil
  then show ?case by simp
next
  case (Cons st steps)
  define s q now uuid where "s = call_sku st" and "q = call_quantity st"
    and "now = call_now st" and "uuid = call_uuid st"
  note st = s_def q_def now_def uuid_def
  from Cons.prems(4) have le: "now \<le> expiresAt c0"
    and w: "within_ttl (ttlMs (client S)) (now + ttlMs (client S)) (map call_now steps)"
    by (simp_all add: st)
  from service_addItem_succeeds [OF Cons.prems(1,2) le Cons.prems(3)] obtain resp S1 where
    add: "service_addItem L t S now uuid i s q = (Inr resp, S1)"
    by blast
  from service_addItem_step [OF add Cons.prems(1)] Cons.prems(2) have
    c: "cart resp = mergeItem t (c0\<lparr>updatedAt := now, expiresAt := now + ttlMs (client S)\<rparr>) s q now uuid"
    and stored: "map_of (carts (client S1)) i
              = Some ((cart resp)\<lparr>updatedAt := now, expiresAt := now + ttlMs (client S)\<rparr>)"
    and ttl: "ttlMs (client S1) = ttlMs (client S)"
    by simp_all
  have id: "cartId ((cart resp)\<lparr>updatedAt := now, expiresAt := now + ttlMs (client S)\<rparr>) = i"
    using Cons.prems(2) by (simp add: c mergeItem_frame)
  have "\<exists>c' S'. live_addItems L t S1 i steps (cart resp) = (Inr c', S')"
    by (rule Cons.IH [OF stored id]) (use Cons.prems(3) w ttl in simp_all)
  with add show ?case
    by (simp add: st)
qed


lemma service_createCart_result:
  "cart (fst (service_createCart L T t0 u0)) = createCart u0 (service_ttlMs T) t0
   \<and> map_of (carts (client (snd (service_createCart L T t0 u0)))) u0
        = Some (createCart u0 (service_ttlMs T) t0)
   \<and> ttlMs (client (snd (service_createCart L T t0 u0))) = ttlMs (client T)"
  by (simp add: service_createCart_def store_create_def createCart_def Let_def AList.update_conv')

text \<open>
  C3. For a token that verifies to a payload with the typed items \<open>its\<close>,
  \<^verbatim>\<open>rehydrateCart\<close> returns and stores the cart that results from a fresh empty cart
  (the new id, expiry \<open>now + ttl\<close>) by one \<^verbatim>\<open>mergeItem\<close> per item in list order.
  Its lines are those of merging the items into no lines, its totals those of its lines.
  Every live run of \<^verbatim>\<open>createCart\<close> followed by one \<^verbatim>\<open>addItem\<close> per item, in the
  same order, that ends without an error ends with the same SKU sequence, quantities and
  totals; and such a run ends without an error when each call arrives within the expiry
  the call before it left.
\<close>

theorem rehydrateCart_replays_items:
  assumes "verifyToken L now token (rehydrationSecret S) (rehydrationMaxAgeMs S) = Inr payload"
    and "payload_items payload = Some its"
  shows "\<exists>resp S'.
      service_rehydrateCart L t S now uuid rnd token = (Inr resp, S')
      \<and> cart resp = foldl (\<lambda>c (j, s, q). mergeItem t c s q now (rnd j))
                       (createCart uuid (service_ttlMs S) now) (zip [0..<length its] its)
      \<and> cartId (cart resp) = uuid
      \<and> expiresAt (cart resp) = now + service_ttlMs S
      \<and> map_of (carts (client S')) uuid = Some (cart resp)
      \<and> lines_of (cart resp) = foldl (\<lambda>ls (s, q). merge_line ls s q) [] its
      \<and> totals (cart resp) = calculateTotals t (items (cart resp))
      \<and> (\<forall>T t0 u0 calls c' T'.
           map (\<lambda>call. (call_sku call, call_quantity call)) calls = its
           \<and> live_addItems L t (snd (service_createCart L T t0 u0)) u0 calls
                 (cart (fst (service_createCart L T t0 u0))) = (Inr c', T')
           \<longrightarrow> lines_of c' = lines_of (cart resp) \<and> totals c' = totals (cart resp))
      \<and> (\<forall>T t0 u0 calls.
           0 \<le> ttlMs (client T)
           \<and> within_ttl (ttlMs (client T)) (t0 + service_ttlMs T) (map call_now calls)
           \<longrightarrow> (\<exists>c' T'. live_addItems L t (snd (service_createCart L T t0 u0)) u0 calls
                           (cart (fst (service_createCart L T t0 u0))) = (Inr c', T')))"
proof -
  let ?new = "createCart uuid (service_ttlMs S) now"
  let ?c = "replayItems t ?new its now rnd 0"
  let ?tok = "createRehydrationToken L now
                (map (\<lambda>item. sku_quantity (sku item) (quantity item)) (items ?c)) (rehydrationSecret S)"
  let ?S' = "S\<lparr>client := snd (store_create (client S) ?c)\<rparr>"
  have run: "service_rehydrateCart L t S now uuid rnd token
               = (Inr \<lparr>cart = ?c, rehydrationToken = ?tok\<rparr>, ?S')"
    using assms by (simp add: service_rehydrateCart_def Let_def split: prod.splits)
  have fresh: "totals ?new = calculateTotals t (items ?new)" "lines_of ?new = []"
    by (simp_all add: createCart_def calculateTotals_Nil lines_of_def)
  have fold: "?c = foldl (\<lambda>c (j, s, q). mergeItem t c s q now (rnd j)) ?new (zip [0..<length its] its)"
    using replayItems_fold [of t ?new its now rnd 0] by simp
  have frame: "cartId ?c = uuid" "expiresAt ?c = now + service_ttlMs S"
    by (simp_all add: replayItems_frame createCart_def)
  have stored: "map_of (carts (client ?S')) uuid = Some ?c"
    by (simp add: store_create_def frame AList.update_conv')
  have lines: "lines_of ?c = foldl (\<lambda>ls (s, q). merge_line ls s q) [] its"
    by (simp add: replayItems_lines fresh)
  have tots: "totals ?c = calculateTotals t (items ?c)"
    by (rule replayItems_totals [OF fresh(1)])
  have live: "lines_of c' = lines_of ?c \<and> totals c' = totals ?c"
    if m: "map (\<lambda>call. (call_sku call, call_quantity call)) calls = its"
      and r: "live_addItems L t (snd (service_createCart L T t0 u0)) u0 calls
                 (cart (fst (service_createCart L T t0 u0))) = (Inr c', T')"
    for T t0 u0 calls c' T'
  proof -
    let ?d = "createCart u0 (service_ttlMs T) t0"
    from service_createCart_result [of L T t0 u0] have
      c: "cart (fst (service_createCart L T t0 u0)) = ?d"
      and st: "map_of (carts (client (snd (service_createCart L T t0 u0)))) u0 = Some ?d"
      by simp_all
    have d: "cartId ?d = u0" "totals ?d = calculateTotals t (items ?d)" "lines_of ?d = []"
      by (simp_all add: createCart_def calculateTotals_Nil lines_of_def)
    from live_addItems_lines [OF r [unfolded c] st d(1) refl d(2)] m d(3) have
      l: "lines_of c' = foldl (\<lambda>ls (s, q). merge_line ls s q) [] its"
      and tt: "totals c' = calculateTotals t (items c')"
      by simp_all
    from l lines have eq: "lines_of c' = lines_of ?c" by simp
    then have "map (\<lambda>item. (sku item, quantity item)) (items c')
                 = map (\<lambda>item. (sku item, quantity item)) (items ?c)"
      unfolding lines_of_def .
    then have "calculateTotals t (items c') = calculateTotals t (items ?c)"
      by (rule calculateTotals_lines)
    with eq tt tots show ?thesis by simp
  qed
  have ok: "\<exists>c' T'. live_addItems L t (snd (service_createCart L T t0 u0)) u0 calls
                           (cart (fst (service_createCart L T t0 u0))) = (Inr c', T')"
    if nn: "0 \<le> ttlMs (client T)"
      and w: "within_ttl (ttlMs (client T)) (t0 + service_ttlMs T) (map call_now calls)"
    for T t0 u0 calls
  proof -
    let ?d = "createCart u0 (service_ttlMs T) t0"
    from service_createCart_result [of L T t0 u0] have
      st: "map_of (carts (client (snd (service_createCart L T t0 u0)))) u0 = Some ?d"
      and ttl: "ttlMs (client (snd (service_createCart L T t0 u0))) = ttlMs (client T)"
      by simp_all
    have d: "cartId ?d = u0" "expiresAt ?d = t0 + service_ttlMs T"
      by (simp_all add: createCart_def)
    show ?thesis
      by (rule live_addItems_succeeds [OF st d(1)]) (use nn w ttl d(2) in simp_all)
  qed
  from run fold frame stored lines tots live ok show ?thesis
    by (intro exI [of _ "\<lparr>cart = ?c, rehydrationToken = ?tok\<rparr>"] exI [of _ ?S']) auto
qed

theorem rehydrateCart_replays_items_witness:
  "\<exists>resp S'.
      service_rehydrateCart demo_lib demo_pricing demo_service 2000 ''new-cart'' demo_rnd
        ''PAYLOAD.secret:PAYLOAD'' = (Inr resp, S')
      \<and> cartId (cart resp) = ''new-cart''
      \<and> lines_of (cart resp) = [(''PLAN-BASIC'', 2), (''ADDON-ROAM'', 1)]"
proof -
  have v: "verifyToken demo_lib 2000 ''PAYLOAD.secret:PAYLOAD''
             (rehydrationSecret demo_service) (rehydrationMaxAgeMs demo_service) = Inr demo_payload"
    by (simp add: verifyToken_def demo_lib_def stub_lib_def demo_payload_def demo_service_def Let_def)
  have p: "payload_items demo_payload = Some demo_items"
    by (simp add: payload_items_def demo_payload_def demo_items_def sku_quantity_def)
  from rehydrateCart_replays_items [OF v p, of demo_pricing "''new-cart''" demo_rnd]
  show ?thesis
    by (auto simp: demo_items_def)
qed

end
